theory Spec2Isabelle
  imports Main
begin

section \<open>Values, errors and promises\<close>

text \<open>
  The values that application code can hand to a transaction. \<open>DocumentReference\<close> and
  \<open>Query\<close> stand for instances of the two classes imported from \<^verbatim>\<open>./reference\<close>; each
  carries the name that identifies it. Omitted arguments are \<open>JsUndefined\<close>.
\<close>

datatype js_value =
    JsUndefined
  | JsString string
  | JsNumber int
  | JsObject "(string \<times> js_value) list"
  | JsArray "js_value list"
  | DocumentReference string
  | Query string

text \<open>\<^verbatim>\<open>is.instance(v, DocumentReference)\<close>, \<^verbatim>\<open>is.instance(v, Query)\<close> and \<^verbatim>\<open>is.array(v)\<close>.\<close>

fun is_instance_DocumentReference :: "js_value \<Rightarrow> bool" where
  "is_instance_DocumentReference (DocumentReference _) = True"
| "is_instance_DocumentReference _ = False"

fun is_instance_Query :: "js_value \<Rightarrow> bool" where
  "is_instance_Query (Query _) = True"
| "is_instance_Query _ = False"

fun is_array :: "js_value \<Rightarrow> bool" where
  "is_array (JsArray _) = True"
| "is_array _ = False"

text \<open>
  Every failure of \<^verbatim>\<open>transaction.js\<close> is a thrown \<^verbatim>\<open>Error\<close>. The constructors name the
  throw site: \<open>SequencingError\<close> is the read-after-write guard, \<open>ArgumentError\<close> a
  rejected argument, \<open>RpcError\<close> a failure reported by the transport through a rejected
  promise.
\<close>

datatype argument_problem =
    Message string
  | NotADocumentReference nat
  | TooFewArguments string nat

datatype error =
    SequencingError string
  | ArgumentError argument_problem
  | RpcError string

fun is_ArgumentError :: "error \<Rightarrow> bool" where
  "is_ArgumentError (ArgumentError _) = True"
| "is_ArgumentError _ = False"

text \<open>
  A promise is modelled by its settled outcome. A method that throws synchronously
  returns \<open>Inl\<close>; a method that returns a promise returns \<open>Inr\<close> of it.
\<close>

datatype 'a promise = Resolved 'a | Rejected error

text \<open>\<^verbatim>\<open>p.then(f)\<close> for a callback that does not throw.\<close>

fun then_promise :: "'a promise \<Rightarrow> ('a \<Rightarrow> 'b) \<Rightarrow> 'b promise" where
  "then_promise (Resolved x) f = Resolved (f x)"
| "then_promise (Rejected e) f = Rejected e"

section \<open>Collaborators\<close>

type_synonym transaction_id = string

record document_snapshot =
  ref :: js_value
  data :: "js_value option"

datatype read_result =
    DocumentSnapshotResult document_snapshot
  | QuerySnapshotResult "document_snapshot list"
  | UndefinedResult

datatype write_op =
    CreateOp js_value js_value
  | SetOp js_value js_value js_value
  | UpdateOp "js_value list"
  | DeleteOp js_value js_value

record read_write_options =
  retryTransaction :: "transaction_id option"

record transaction_options =
  readWrite :: read_write_options

record begin_request =
  database :: string
  options :: "transaction_options option"

datatype rpc_request =
    BeginTransactionRequest begin_request
  | CommitRequest "transaction_id option" "write_op list"
  | RollbackRequest string "transaction_id option"

record rpc_response =
  transaction :: "transaction_id option"
  writeResults :: "js_value list"

text \<open>
  The database client. Its transport is a parameter of the model:
  \<^item> \<open>request\<close> is \<^verbatim>\<open>firestore.request(methodName, request, requestTag, allowRetries)\<close>
    (the last argument is \<open>None\<close> where the caller omits it);
  \<^item> \<open>fetch\<close> is the batched read of a document group: for a transaction id and a list
    of references it settles to the stored data of each reference;
  \<^item> \<open>runQuery\<close> is the execution of a query under a transaction id.
\<close>

record firestore =
  formattedName :: string
  request :: "string \<Rightarrow> rpc_request \<Rightarrow> string \<Rightarrow> bool option \<Rightarrow> rpc_response promise"
  fetch :: "transaction_id option \<Rightarrow> js_value list \<Rightarrow> (js_value \<Rightarrow> js_value option) promise"
  runQuery :: "string \<Rightarrow> transaction_id option \<Rightarrow> document_snapshot list promise"

subsection \<open>Write batch\<close>

text \<open>
  Modelled from the spec: the write batch (\<^verbatim>\<open>write-batch.js\<close> is not among the sources).
  It is an ordered sequence of pending write operations (create/set/update/delete), each
  appended by the operation of the same name; its empty state is queryable; its commit
  operation (\<^verbatim>\<open>commit_\<close> in the source) sends a commit request that carries the
  transaction id, the request tag and the ordered writes, and is not retried by the
  transport.
\<close>

record write_batch =
  wb_firestore :: firestore
  writes :: "write_op list"

definition batch :: "firestore \<Rightarrow> write_batch" where
  "batch fs = \<lparr>wb_firestore = fs, writes = []\<rparr>"

definition isEmpty :: "write_batch \<Rightarrow> bool" where
  "isEmpty wb = (writes wb = [])"

definition WriteBatch_create :: "write_batch \<Rightarrow> js_value \<Rightarrow> js_value \<Rightarrow> write_batch" where
  "WriteBatch_create wb documentRef dat = wb\<lparr>writes := writes wb @ [CreateOp documentRef dat]\<rparr>"

definition WriteBatch_set ::
  "write_batch \<Rightarrow> js_value \<Rightarrow> js_value \<Rightarrow> js_value \<Rightarrow> write_batch" where
  "WriteBatch_set wb documentRef dat opts =
     wb\<lparr>writes := writes wb @ [SetOp documentRef dat opts]\<rparr>"

definition WriteBatch_update :: "write_batch \<Rightarrow> js_value list \<Rightarrow> write_batch" where
  "WriteBatch_update wb args = wb\<lparr>writes := writes wb @ [UpdateOp args]\<rparr>"

definition WriteBatch_delete :: "write_batch \<Rightarrow> js_value \<Rightarrow> js_value \<Rightarrow> write_batch" where
  "WriteBatch_delete wb documentRef precondition =
     wb\<lparr>writes := writes wb @ [DeleteOp documentRef precondition]\<rparr>"

record commit_options =
  co_transactionId :: "transaction_id option"
  co_requestTag :: string

definition WriteBatch_commit :: "write_batch \<Rightarrow> commit_options \<Rightarrow> rpc_response promise" where
  "WriteBatch_commit wb opts =
     request (wb_firestore wb) ''commit''
       (CommitRequest (co_transactionId opts) (writes wb)) (co_requestTag opts) None"

subsection \<open>Document group, query, validator, request tags\<close>

text \<open>
  Modelled from the spec: the document group (\<^verbatim>\<open>document-group.js\<close> is not among the
  sources). Given the references and an optional transaction id it performs one batched
  fetch and returns one snapshot per reference, in input order, each for its own
  reference.
\<close>

record document_group_options =
  dg_transactionId :: "transaction_id option"

definition DocumentGroup_get ::
  "firestore \<Rightarrow> js_value list \<Rightarrow> document_group_options \<Rightarrow> document_snapshot list promise" where
  "DocumentGroup_get fs documents opts =
     then_promise (fetch fs (dg_transactionId opts) documents)
       (\<lambda>stored. map (\<lambda>d. \<lparr>ref = d, data = stored d\<rparr>) documents)"

text \<open>
  Modelled from the spec: \<^verbatim>\<open>Query._get\<close> (\<^verbatim>\<open>reference.js\<close> is not among the sources)
  executes the query scoped to the given transaction id and returns the query result.
\<close>

definition Query_get ::
  "firestore \<Rightarrow> string \<Rightarrow> transaction_id option \<Rightarrow> document_snapshot list promise" where
  "Query_get fs q transactionId = runQuery fs q transactionId"

text \<open>
  Modelled from the spec: the validator (\<^verbatim>\<open>validate.js\<close> is not among the sources).
  \<open>isDocumentReference\<close> fails with an argument error identifying the position of an
  element that is not a document reference; \<open>minNumberOfArguments\<close> fails with an
  argument error when fewer arguments than required were passed.
\<close>

definition isDocumentReference :: "nat \<Rightarrow> js_value \<Rightarrow> error + unit" where
  "isDocumentReference i v =
     (if is_instance_DocumentReference v then Inr ()
      else Inl (ArgumentError (NotADocumentReference i)))"

definition minNumberOfArguments :: "string \<Rightarrow> js_value list \<Rightarrow> nat \<Rightarrow> error + unit" where
  "minNumberOfArguments funcName args minSize =
     (if length args < minSize then Inl (ArgumentError (TooFewArguments funcName minSize))
      else Inr ())"

section \<open>The transaction\<close>

text \<open>\<^verbatim>\<open>READ_AFTER_WRITE_ERROR_MSG\<close> and \<^verbatim>\<open>ALLOW_RETRIES\<close>.\<close>

definition READ_AFTER_WRITE_ERROR_MSG :: string where
  "READ_AFTER_WRITE_ERROR_MSG =
     ''Firestore transactions require all reads to be executed before all writes.''"

definition ALLOW_RETRIES :: bool where
  "ALLOW_RETRIES = True"

text \<open>
  The fields of a \<^verbatim>\<open>Transaction\<close> object: \<^verbatim>\<open>_firestore\<close>, \<^verbatim>\<open>_previousTransaction\<close>,
  \<^verbatim>\<open>_writeBatch\<close>, \<^verbatim>\<open>_requestTag\<close> and \<^verbatim>\<open>_transactionId\<close> (absent until \<^verbatim>\<open>begin\<close> has
  stored it). The field \<^verbatim>\<open>_validator\<close> is not kept: the validator's two methods are the
  constants above. A previous attempt is terminal when it is passed on, so the reference
  to it is its value.
\<close>

datatype transaction = Transaction
  (tx_firestore: firestore)
  (tx_previousTransaction: "transaction option")
  (tx_writeBatch: write_batch)
  (tx_requestTag: string)
  (tx_transactionId: "transaction_id option")

text \<open>The getter \<^verbatim>\<open>requestTag\<close>.\<close>

definition Transaction_requestTag :: "transaction \<Rightarrow> string" where
  "Transaction_requestTag t = tx_requestTag t"

text \<open>
  The constructor. \<open>generated\<close> is the tag that a call of the generator \<^verbatim>\<open>requestTag()\<close>
  of \<^verbatim>\<open>./util\<close> would return at this moment; the generator is only called when there is
  no previous transaction.
\<close>

definition Transaction_new :: "firestore \<Rightarrow> transaction option \<Rightarrow> string \<Rightarrow> transaction" where
  "Transaction_new fs previousTransaction generated =
     Transaction fs previousTransaction (batch fs)
       (case previousTransaction of
          Some p \<Rightarrow> Transaction_requestTag p
        | None \<Rightarrow> generated)
       None"

text \<open>\<^verbatim>\<open>arguments[i]\<close>: \<open>JsUndefined\<close> beyond the arguments that were passed.\<close>

definition argument :: "js_value list \<Rightarrow> nat \<Rightarrow> js_value" where
  "argument args i = (if i < length args then args ! i else JsUndefined)"

text \<open>The loop of \<^verbatim>\<open>getAll\<close> that validates \<^verbatim>\<open>documents[i]\<close> from position \<open>i\<close> on.\<close>

fun validate_documents :: "nat \<Rightarrow> js_value list \<Rightarrow> error + unit" where
  "validate_documents i [] = Inr ()"
| "validate_documents i (d # ds) =
     (case isDocumentReference i d of
        Inl e \<Rightarrow> Inl e
      | Inr _ \<Rightarrow> validate_documents (Suc i) ds)"

text \<open>
  \<^verbatim>\<open>is.array(arguments[0]) ? arguments[0].slice() : Array.prototype.slice.call(arguments)\<close>
\<close>

definition normalize_documents :: "js_value list \<Rightarrow> js_value list" where
  "normalize_documents args =
     (case argument args 0 of
        JsArray ds \<Rightarrow> ds
      | _ \<Rightarrow> args)"

definition Transaction_getAll ::
  "transaction \<Rightarrow> js_value list \<Rightarrow> error + document_snapshot list promise" where
  "Transaction_getAll t args =
     (if \<not> isEmpty (tx_writeBatch t) then Inl (SequencingError READ_AFTER_WRITE_ERROR_MSG)
      else
        let documents = normalize_documents args in
        case validate_documents 0 documents of
          Inl e \<Rightarrow> Inl e
        | Inr _ \<Rightarrow>
            Inr (DocumentGroup_get (tx_firestore t) documents
                   \<lparr>dg_transactionId = tx_transactionId t\<rparr>))"

text \<open>The callback \<^verbatim>\<open>([res]) => res\<close>: the first element, undefined for an empty array.\<close>

fun first_result :: "document_snapshot list \<Rightarrow> read_result" where
  "first_result [] = UndefinedResult"
| "first_result (res # _) = DocumentSnapshotResult res"

definition Transaction_get :: "transaction \<Rightarrow> js_value \<Rightarrow> error + read_result promise" where
  \<open>Transaction_get t refOrQuery =
     (if \<not> isEmpty (tx_writeBatch t) then Inl (SequencingError READ_AFTER_WRITE_ERROR_MSG)
      else if is_instance_DocumentReference refOrQuery then
        (case Transaction_getAll t [refOrQuery] of
           Inl e \<Rightarrow> Inl e
         | Inr p \<Rightarrow> Inr (then_promise p first_result))
      else
        (case refOrQuery of
           Query q \<Rightarrow>
             Inr (then_promise (Query_get (tx_firestore t) q (tx_transactionId t))
                    QuerySnapshotResult)
         | _ \<Rightarrow>
             Inl (ArgumentError
                    (Message ''Argument "refOrQuery" must be a DocumentRef or a Query.''))))\<close>

text \<open>
  The write operations. Each returns \<^verbatim>\<open>this\<close>, that is the transaction with the
  operation appended to its batch; \<^verbatim>\<open>update\<close> throws before it touches the batch when
  the validator rejects the number of arguments.
\<close>

definition with_writeBatch :: "transaction \<Rightarrow> write_batch \<Rightarrow> transaction" where
  "with_writeBatch t wb =
     Transaction (tx_firestore t) (tx_previousTransaction t) wb (tx_requestTag t)
       (tx_transactionId t)"

definition Transaction_create :: "transaction \<Rightarrow> js_value \<Rightarrow> js_value \<Rightarrow> transaction" where
  "Transaction_create t documentRef dat =
     with_writeBatch t (WriteBatch_create (tx_writeBatch t) documentRef dat)"

definition Transaction_set ::
  "transaction \<Rightarrow> js_value \<Rightarrow> js_value \<Rightarrow> js_value \<Rightarrow> transaction" where
  "Transaction_set t documentRef dat opts =
     with_writeBatch t (WriteBatch_set (tx_writeBatch t) documentRef dat opts)"

definition Transaction_update :: "transaction \<Rightarrow> js_value list \<Rightarrow> error + transaction" where
  "Transaction_update t args =
     (case minNumberOfArguments ''update'' args 2 of
        Inl e \<Rightarrow> Inl e
      | Inr _ \<Rightarrow>
          let preconditionOrValues = drop 2 args in
          Inr (with_writeBatch t
                 (WriteBatch_update (tx_writeBatch t)
                    ([argument args 0, argument args 1] @ preconditionOrValues))))"

definition Transaction_delete :: "transaction \<Rightarrow> js_value \<Rightarrow> js_value \<Rightarrow> transaction" where
  "Transaction_delete t documentRef precondition =
     with_writeBatch t (WriteBatch_delete (tx_writeBatch t) documentRef precondition)"

text \<open>
  \<^verbatim>\<open>begin\<close>: the request object as it is built before it is sent, then the call itself,
  which returns the promise and the transaction as the \<^verbatim>\<open>then\<close> callback leaves it.
\<close>

definition begin_request_of :: "transaction \<Rightarrow> begin_request" where
  "begin_request_of t =
     (let req = \<lparr>database = formattedName (tx_firestore t), options = None\<rparr> in
      case tx_previousTransaction t of
        Some p \<Rightarrow>
          req\<lparr>options := Some \<lparr>readWrite = \<lparr>retryTransaction = tx_transactionId p\<rparr>\<rparr>\<rparr>
      | None \<Rightarrow> req)"

definition with_transactionId :: "transaction \<Rightarrow> transaction_id option \<Rightarrow> transaction" where
  "with_transactionId t tid =
     Transaction (tx_firestore t) (tx_previousTransaction t) (tx_writeBatch t)
       (tx_requestTag t) tid"

definition Transaction_begin :: "transaction \<Rightarrow> unit promise \<times> transaction" where
  "Transaction_begin t =
     (case request (tx_firestore t) ''beginTransaction''
             (BeginTransactionRequest (begin_request_of t)) (tx_requestTag t)
             (Some ALLOW_RETRIES) of
        Resolved resp \<Rightarrow> (Resolved (), with_transactionId t (transaction resp))
      | Rejected e \<Rightarrow> (Rejected e, t))"

definition Transaction_commit :: "transaction \<Rightarrow> rpc_response promise" where
  "Transaction_commit t =
     WriteBatch_commit (tx_writeBatch t)
       \<lparr>co_transactionId = tx_transactionId t, co_requestTag = tx_requestTag t\<rparr>"

definition Transaction_rollback :: "transaction \<Rightarrow> rpc_response promise" where
  "Transaction_rollback t =
     request (tx_firestore t) ''rollback''
       (RollbackRequest (formattedName (tx_firestore t)) (tx_transactionId t))
       (tx_requestTag t) None"

section \<open>Sequences of calls on one attempt\<close>

text \<open>
  The calls that the driver and the update function can make on one attempt, and the
  attempt as each call leaves it. A read, a commit and a rollback assign no field; a
  write assigns the batch; \<^verbatim>\<open>begin\<close> assigns the transaction id when its request
  succeeds; an \<^verbatim>\<open>update\<close> that throws has assigned nothing.
\<close>

datatype call =
    Get js_value
  | GetAll "js_value list"
  | Create js_value js_value
  | Set js_value js_value js_value
  | Update "js_value list"
  | Delete js_value js_value
  | Begin
  | Commit
  | Rollback

fun invoke :: "transaction \<Rightarrow> call \<Rightarrow> transaction" where
  "invoke t (Get refOrQuery) = t"
| "invoke t (GetAll args) = t"
| "invoke t (Create documentRef dat) = Transaction_create t documentRef dat"
| "invoke t (Set documentRef dat opts) = Transaction_set t documentRef dat opts"
| "invoke t (Update args) =
     (case Transaction_update t args of Inl e \<Rightarrow> t | Inr t' \<Rightarrow> t')"
| "invoke t (Delete documentRef precondition) = Transaction_delete t documentRef precondition"
| "invoke t Begin = snd (Transaction_begin t)"
| "invoke t Commit = t"
| "invoke t Rollback = t"

definition run :: "transaction \<Rightarrow> call list \<Rightarrow> transaction" where
  "run t calls = foldl invoke t calls"

text \<open>The calls that read: \<^verbatim>\<open>get\<close> and \<^verbatim>\<open>getAll\<close>.\<close>

fun is_read :: "call \<Rightarrow> bool" where
  "is_read (Get _) = True"
| "is_read (GetAll _) = True"
| "is_read _ = False"

text \<open>
  The operations that a call buffers, as the specification words it: one operation
  for each create, set, delete and accepted update, with the arguments as they were
  passed, and nothing for any other call.
\<close>

fun buffered :: "call \<Rightarrow> write_op list" where
  "buffered (Create documentRef dat) = [CreateOp documentRef dat]"
| "buffered (Set documentRef dat opts) = [SetOp documentRef dat opts]"
| "buffered (Update args) = (if length args < 2 then [] else [UpdateOp args])"
| "buffered (Delete documentRef precondition) = [DeleteOp documentRef precondition]"
| "buffered _ = []"

section \<open>A concrete database client\<close>

text \<open>
  A client whose transport answers every request: \<^verbatim>\<open>beginTransaction\<close> with the id
  \<open>tx1\<close>, a commit with one result per write, a fetch with the one stored document
  \<open>col/doc1\<close>, a query with no documents.
\<close>

definition example_request ::
  "string \<Rightarrow> rpc_request \<Rightarrow> string \<Rightarrow> bool option \<Rightarrow> rpc_response promise" where
  "example_request methodName req tag allowRetries =
     (case req of
        BeginTransactionRequest _ \<Rightarrow> Resolved \<lparr>transaction = Some ''tx1'', writeResults = []\<rparr>
      | CommitRequest _ ws \<Rightarrow>
          Resolved \<lparr>transaction = None, writeResults = map (\<lambda>_. JsUndefined) ws\<rparr>
      | RollbackRequest _ _ \<Rightarrow> Resolved \<lparr>transaction = None, writeResults = []\<rparr>)"

definition example_fetch ::
  "transaction_id option \<Rightarrow> js_value list \<Rightarrow> (js_value \<Rightarrow> js_value option) promise" where
  "example_fetch tid documents =
     Resolved (\<lambda>d. if d = DocumentReference ''col/doc1'' then Some (JsNumber 1) else None)"

definition example_firestore :: firestore where
  "example_firestore =
     \<lparr>formattedName = ''projects/p/databases/d'',
      request = example_request,
      fetch = example_fetch,
      runQuery = (\<lambda>q tid. Resolved [])\<rparr>"

text \<open>A fresh attempt, the same attempt after one buffered write, and a retry of it.\<close>

definition fresh_attempt :: transaction where
  "fresh_attempt = Transaction_new example_firestore None ''tag1''"

definition written_attempt :: transaction where
  "written_attempt =
     Transaction_create fresh_attempt (DocumentReference ''col/doc1'')
       (JsObject [(''x'', JsNumber 1)])"

definition retry_attempt :: transaction where
  "retry_attempt =
     Transaction_new example_firestore (Some (snd (Transaction_begin written_attempt))) ''tag2''"

text \<open>Three references with a repeated one, and a sequence with every kind of call.\<close>

definition three_documents :: "js_value list" where
  "three_documents =
     [DocumentReference ''col/doc2'', DocumentReference ''col/doc1'',
      DocumentReference ''col/doc2'']"

definition mixed_calls :: "call list" where
  "mixed_calls =
     [Get (DocumentReference ''col/doc1''),
      Begin,
      Set (DocumentReference ''col/doc1'') (JsObject [(''x'', JsNumber 2)]) JsUndefined,
      Update [DocumentReference ''col/doc1''],
      Delete (DocumentReference ''col/doc2'') JsUndefined,
      Commit,
      Rollback]"

section \<open>Evaluation and basic facts\<close>

lemmas transaction_defs =
  Transaction_new_def Transaction_requestTag_def Transaction_get_def Transaction_getAll_def
  Transaction_create_def Transaction_set_def Transaction_update_def Transaction_delete_def
  Transaction_begin_def Transaction_commit_def Transaction_rollback_def
  with_writeBatch_def with_transactionId_def begin_request_of_def normalize_documents_def
  argument_def READ_AFTER_WRITE_ERROR_MSG_def ALLOW_RETRIES_def

lemmas collaborator_defs =
  batch_def isEmpty_def WriteBatch_create_def WriteBatch_set_def WriteBatch_update_def
  WriteBatch_delete_def WriteBatch_commit_def DocumentGroup_get_def Query_get_def
  isDocumentReference_def minNumberOfArguments_def

lemmas example_defs =
  example_request_def example_fetch_def example_firestore_def fresh_attempt_def
  written_attempt_def retry_attempt_def

lemma fresh_attempt_empty: "isEmpty (tx_writeBatch fresh_attempt)"
  by (simp add: fresh_attempt_def Transaction_new_def batch_def isEmpty_def)

lemma written_attempt_nonempty: "\<not> isEmpty (tx_writeBatch written_attempt)"
  by (simp add: written_attempt_def Transaction_create_def with_writeBatch_def
      WriteBatch_create_def isEmpty_def)

lemma get_guard:
  "\<not> isEmpty (tx_writeBatch t) \<Longrightarrow>
     Transaction_get t refOrQuery = Inl (SequencingError READ_AFTER_WRITE_ERROR_MSG)"
  by (simp add: Transaction_get_def)

lemma getAll_guard:
  "\<not> isEmpty (tx_writeBatch t) \<Longrightarrow>
     Transaction_getAll t args = Inl (SequencingError READ_AFTER_WRITE_ERROR_MSG)"
  by (simp add: Transaction_getAll_def)

lemma invoke_read: "is_read c \<Longrightarrow> invoke t c = t"
  by (cases c) simp_all

lemma run_reads: "list_all is_read reads \<Longrightarrow> run t reads = t"
  unfolding run_def by (induction reads arbitrary: t) (simp_all add: invoke_read)

lemma validate_documents_ok:
  "list_all is_instance_DocumentReference ds \<Longrightarrow> validate_documents i ds = Inr ()"
  by (induction ds arbitrary: i) (simp_all add: isDocumentReference_def)

lemma validate_documents_error:
  "validate_documents i ds = Inl e \<Longrightarrow> is_ArgumentError e"
  by (induction ds arbitrary: i) (auto simp: isDocumentReference_def split: if_splits)

lemma normalize_documents_array: "normalize_documents [JsArray ds] = ds"
  by (simp add: normalize_documents_def argument_def)

lemma normalize_documents_variadic:
  "list_all is_instance_DocumentReference ds \<Longrightarrow> normalize_documents ds = ds"
  by (cases ds) (auto simp: normalize_documents_def argument_def split: js_value.splits)

lemma getAll_empty_not_sequencing:
  assumes "isEmpty (tx_writeBatch t)"
  shows "Transaction_getAll t args \<noteq> Inl (SequencingError m)"
proof (cases "validate_documents 0 (normalize_documents args)")
  case (Inl e)
  then have "is_ArgumentError e" by (rule validate_documents_error)
  then have "e \<noteq> SequencingError m" by (cases e) simp_all
  with Inl assms show ?thesis by (simp add: Transaction_getAll_def)
next
  case (Inr u)
  with assms show ?thesis by (simp add: Transaction_getAll_def)
qed

lemma get_empty_not_sequencing:
  assumes "isEmpty (tx_writeBatch t)"
  shows "Transaction_get t v \<noteq> Inl (SequencingError m)"
proof (cases "is_instance_DocumentReference v")
  case True
  with assms getAll_empty_not_sequencing [OF assms, of "[v]" m] show ?thesis
    by (cases "Transaction_getAll t [v]") (simp_all add: Transaction_get_def)
next
  case False
  with assms show ?thesis
    by (cases v) (simp_all add: Transaction_get_def)
qed

lemma malformed_get_when_empty:
  assumes "isEmpty (tx_writeBatch t)"
    and "\<not> is_instance_DocumentReference v" and "\<not> is_instance_Query v"
  shows \<open>Transaction_get t v =
    Inl (ArgumentError (Message ''Argument "refOrQuery" must be a DocumentRef or a Query.''))\<close>
  using assms by (cases v) (simp_all add: Transaction_get_def)

lemma malformed_getAll_when_empty:
  assumes "isEmpty (tx_writeBatch t)"
    and "validate_documents 0 (normalize_documents args) = Inl e"
  shows "Transaction_getAll t args = Inl e \<and> is_ArgumentError e"
  using assms by (simp add: Transaction_getAll_def validate_documents_error)

text \<open>
  \<^verbatim>\<open>[documentRef, dataOrField].concat(preconditionOrValues)\<close> is the argument list again
  when at least two arguments were passed.
\<close>

lemma update_arguments_rebuilt:
  "\<not> length args < 2 \<Longrightarrow> argument args 0 # argument args (Suc 0) # drop 2 args = args"
proof (cases args)
  case Nil
  then show "\<not> length args < 2 \<Longrightarrow> ?thesis" by simp
next
  case (Cons a rest)
  then show "\<not> length args < 2 \<Longrightarrow> ?thesis"
    by (cases rest) (simp_all add: argument_def)
qed

lemma invoke_writes:
  "writes (tx_writeBatch (invoke t c)) = writes (tx_writeBatch t) @ buffered c"
proof (cases c)
  case (Update args)
  then show ?thesis
    by (simp add: Transaction_update_def minNumberOfArguments_def with_writeBatch_def
        WriteBatch_update_def update_arguments_rebuilt)
next
  case Begin
  then show ?thesis
    by (simp add: Transaction_begin_def with_transactionId_def split: promise.splits)
qed (simp_all add: Transaction_create_def Transaction_set_def Transaction_delete_def
    with_writeBatch_def WriteBatch_create_def WriteBatch_set_def WriteBatch_delete_def)

lemma invoke_fixed_fields:
  "tx_requestTag (invoke t c) = tx_requestTag t \<and>
   tx_firestore (invoke t c) = tx_firestore t \<and>
   tx_previousTransaction (invoke t c) = tx_previousTransaction t \<and>
   wb_firestore (tx_writeBatch (invoke t c)) = wb_firestore (tx_writeBatch t)"
proof (cases c)
  case (Update args)
  then show ?thesis
    by (simp add: Transaction_update_def minNumberOfArguments_def with_writeBatch_def
        WriteBatch_update_def)
next
  case Begin
  then show ?thesis
    by (simp add: Transaction_begin_def with_transactionId_def split: promise.splits)
qed (simp_all add: Transaction_create_def Transaction_set_def Transaction_delete_def
    with_writeBatch_def WriteBatch_create_def WriteBatch_set_def WriteBatch_delete_def)

lemma run_Nil: "run t [] = t"
  by (simp add: run_def)

lemma run_Cons: "run t (c # cs) = run (invoke t c) cs"
  by (simp add: run_def)

lemma run_writes:
  "writes (tx_writeBatch (run t calls)) = writes (tx_writeBatch t) @ concat (map buffered calls)"
  by (induction calls arbitrary: t) (simp_all add: run_Nil run_Cons invoke_writes)

lemma run_fixed_fields:
  "tx_requestTag (run t calls) = tx_requestTag t \<and>
   tx_firestore (run t calls) = tx_firestore t \<and>
   tx_previousTransaction (run t calls) = tx_previousTransaction t \<and>
   wb_firestore (tx_writeBatch (run t calls)) = wb_firestore (tx_writeBatch t)"
  by (induction calls arbitrary: t) (simp_all add: run_Nil run_Cons invoke_fixed_fields)

section \<open>The read-after-write guard\<close>

text \<open>
  C1. On every attempt whose write batch is not empty, \<^verbatim>\<open>get\<close> and \<^verbatim>\<open>getAll\<close> throw the
  read-after-write error, whatever their arguments and however many reads were made on
  the attempt before: the guard is evaluated at every read.
\<close>

theorem read_after_write_fails:
  assumes "\<not> isEmpty (tx_writeBatch t)" and "list_all is_read reads"
  shows "Transaction_get (run t reads) refOrQuery =
           Inl (SequencingError READ_AFTER_WRITE_ERROR_MSG) \<and>
         Transaction_getAll (run t reads) args =
           Inl (SequencingError READ_AFTER_WRITE_ERROR_MSG)"
  using assms by (simp add: run_reads get_guard getAll_guard)

theorem read_after_write_fails_witness:
  "\<not> isEmpty (tx_writeBatch written_attempt) \<and>
   list_all is_read [Get (DocumentReference ''col/doc1''), GetAll []] \<and>
   Transaction_get (run written_attempt [Get (DocumentReference ''col/doc1''), GetAll []])
       (DocumentReference ''col/doc2'') =
     Inl (SequencingError READ_AFTER_WRITE_ERROR_MSG) \<and>
   Transaction_getAll (run written_attempt [Get (DocumentReference ''col/doc1''), GetAll []])
       [DocumentReference ''col/doc2''] =
     Inl (SequencingError READ_AFTER_WRITE_ERROR_MSG)"
  using read_after_write_fails [of written_attempt
      "[Get (DocumentReference ''col/doc1''), GetAll []]"
      "DocumentReference ''col/doc2''" "[DocumentReference ''col/doc2'']"]
    written_attempt_nonempty
  by simp

text \<open>
  C9. The guard is monotonic within one attempt. Whatever calls are made on an attempt,
  the writes that its batch held are still there, in front of the writes added since;
  so a batch that is not empty stays not empty, and once a read has failed with the
  read-after-write error every later read on the attempt fails with it too.
\<close>

theorem guard_is_monotonic:
  "(\<exists>ws. writes (tx_writeBatch (run t calls)) = writes (tx_writeBatch t) @ ws) \<and>
   (\<not> isEmpty (tx_writeBatch t) \<longrightarrow> \<not> isEmpty (tx_writeBatch (run t calls))) \<and>
   (Transaction_get t v0 = Inl (SequencingError READ_AFTER_WRITE_ERROR_MSG) \<or>
    Transaction_getAll t args0 = Inl (SequencingError READ_AFTER_WRITE_ERROR_MSG) \<longrightarrow>
      Transaction_get (run t calls) v = Inl (SequencingError READ_AFTER_WRITE_ERROR_MSG) \<and>
      Transaction_getAll (run t calls) args = Inl (SequencingError READ_AFTER_WRITE_ERROR_MSG))"
proof -
  have grows: "writes (tx_writeBatch (run t calls)) =
      writes (tx_writeBatch t) @ concat (map buffered calls)"
    by (rule run_writes)
  then have stays: "\<not> isEmpty (tx_writeBatch (run t calls))" if "\<not> isEmpty (tx_writeBatch t)"
    using that by (simp add: isEmpty_def)
  have "\<not> isEmpty (tx_writeBatch t)"
    if "Transaction_get t v0 = Inl (SequencingError READ_AFTER_WRITE_ERROR_MSG) \<or>
        Transaction_getAll t args0 = Inl (SequencingError READ_AFTER_WRITE_ERROR_MSG)"
    using that get_empty_not_sequencing getAll_empty_not_sequencing by blast
  then have fails: "Transaction_get (run t calls) v =
        Inl (SequencingError READ_AFTER_WRITE_ERROR_MSG) \<and>
      Transaction_getAll (run t calls) args =
        Inl (SequencingError READ_AFTER_WRITE_ERROR_MSG)"
    if "Transaction_get t v0 = Inl (SequencingError READ_AFTER_WRITE_ERROR_MSG) \<or>
        Transaction_getAll t args0 = Inl (SequencingError READ_AFTER_WRITE_ERROR_MSG)"
    using that stays by (simp add: get_guard getAll_guard)
  from grows have "\<exists>ws. writes (tx_writeBatch (run t calls)) = writes (tx_writeBatch t) @ ws"
    by blast
  with stays fails show ?thesis by blast
qed

theorem guard_is_monotonic_witness:
  "\<not> isEmpty (tx_writeBatch written_attempt) \<and>
   Transaction_get written_attempt (Query ''col'') =
     Inl (SequencingError READ_AFTER_WRITE_ERROR_MSG) \<and>
   \<not> isEmpty (tx_writeBatch (run written_attempt mixed_calls)) \<and>
   Transaction_get (run written_attempt mixed_calls) (DocumentReference ''col/doc2'') =
     Inl (SequencingError READ_AFTER_WRITE_ERROR_MSG) \<and>
   Transaction_getAll (run written_attempt mixed_calls) [] =
     Inl (SequencingError READ_AFTER_WRITE_ERROR_MSG)"
proof -
  have failed: "Transaction_get written_attempt (Query ''col'') =
      Inl (SequencingError READ_AFTER_WRITE_ERROR_MSG)"
    using written_attempt_nonempty by (rule get_guard)
  from guard_is_monotonic [of written_attempt mixed_calls "Query ''col''" "[]"
      "DocumentReference ''col/doc2''" "[]"] failed written_attempt_nonempty
  show ?thesis by simp
qed

text \<open>
  C10. In \<^verbatim>\<open>get\<close> and in \<^verbatim>\<open>getAll\<close> the guard comes before the validation of the
  arguments: on an attempt whose write batch is not empty every call fails with the
  read-after-write error, malformed arguments included, and never with an argument
  error.
\<close>

theorem guard_precedes_validation:
  assumes "\<not> isEmpty (tx_writeBatch t)"
  shows "Transaction_get t v = Inl (SequencingError READ_AFTER_WRITE_ERROR_MSG) \<and>
         Transaction_getAll t args = Inl (SequencingError READ_AFTER_WRITE_ERROR_MSG) \<and>
         (\<forall>e. is_ArgumentError e \<longrightarrow>
            Transaction_get t v \<noteq> Inl e \<and> Transaction_getAll t args \<noteq> Inl e)"
proof -
  have "e \<noteq> SequencingError READ_AFTER_WRITE_ERROR_MSG" if "is_ArgumentError e" for e
    using that by (cases e) simp_all
  with assms show ?thesis
    by (simp add: get_guard getAll_guard) blast
qed

theorem guard_precedes_validation_witness:
  \<open>\<not> isEmpty (tx_writeBatch written_attempt) \<and>
   Transaction_get fresh_attempt (JsNumber 7) =
     Inl (ArgumentError (Message ''Argument "refOrQuery" must be a DocumentRef or a Query.'')) \<and>
   Transaction_get written_attempt (JsNumber 7) =
     Inl (SequencingError READ_AFTER_WRITE_ERROR_MSG) \<and>
   Transaction_getAll fresh_attempt [DocumentReference ''col/doc1'', JsString ''col/doc2''] =
     Inl (ArgumentError (NotADocumentReference 1)) \<and>
   Transaction_getAll written_attempt [DocumentReference ''col/doc1'', JsString ''col/doc2''] =
     Inl (SequencingError READ_AFTER_WRITE_ERROR_MSG)\<close>
proof -
  have rejected: \<open>Transaction_get fresh_attempt (JsNumber 7) =
      Inl (ArgumentError (Message ''Argument "refOrQuery" must be a DocumentRef or a Query.''))\<close>
    using fresh_attempt_empty by (simp add: malformed_get_when_empty)
  have rejected_all:
    "Transaction_getAll fresh_attempt [DocumentReference ''col/doc1'', JsString ''col/doc2''] =
       Inl (ArgumentError (NotADocumentReference 1))"
    using fresh_attempt_empty
    by (simp add: Transaction_getAll_def normalize_documents_def argument_def
        isDocumentReference_def)
  from guard_precedes_validation [OF written_attempt_nonempty, of "JsNumber 7"
      "[DocumentReference ''col/doc1'', JsString ''col/doc2'']"]
    rejected rejected_all written_attempt_nonempty
  show ?thesis by simp
qed

section \<open>Reads\<close>

text \<open>
  C2. For a document reference \<open>d\<close>, \<^verbatim>\<open>get(d)\<close> is \<^verbatim>\<open>getAll(d)\<close> with its result
  unwrapped: it throws what \<^verbatim>\<open>getAll(d)\<close> throws, and when \<^verbatim>\<open>getAll(d)\<close> resolves to the
  one-element sequence \<open>[s]\<close>, \<^verbatim>\<open>get(d)\<close> resolves to \<open>s\<close>.
\<close>

theorem get_unwraps_getAll:
  "Transaction_get t (DocumentReference d) =
     (case Transaction_getAll t [DocumentReference d] of
        Inl e \<Rightarrow> Inl e
      | Inr p \<Rightarrow> Inr (then_promise p first_result)) \<and>
   (Transaction_getAll t [DocumentReference d] = Inr (Resolved [s]) \<longrightarrow>
      Transaction_get t (DocumentReference d) = Inr (Resolved (DocumentSnapshotResult s)))"
  by (auto simp: Transaction_get_def Transaction_getAll_def)

theorem get_unwraps_getAll_witness:
  "Transaction_getAll fresh_attempt [DocumentReference ''col/doc1''] =
     Inr (Resolved [\<lparr>ref = DocumentReference ''col/doc1'', data = Some (JsNumber 1)\<rparr>]) \<and>
   Transaction_get fresh_attempt (DocumentReference ''col/doc1'') =
     Inr (Resolved (DocumentSnapshotResult
            \<lparr>ref = DocumentReference ''col/doc1'', data = Some (JsNumber 1)\<rparr>))"
proof -
  have fetched: "Transaction_getAll fresh_attempt [DocumentReference ''col/doc1''] =
     Inr (Resolved [\<lparr>ref = DocumentReference ''col/doc1'', data = Some (JsNumber 1)\<rparr>])"
    by (simp add: transaction_defs collaborator_defs example_defs)
  with get_unwraps_getAll [of fresh_attempt "''col/doc1''"
      "\<lparr>ref = DocumentReference ''col/doc1'', data = Some (JsNumber 1)\<rparr>"]
  show ?thesis by simp
qed

text \<open>
  C3. On an attempt with an empty write batch, \<^verbatim>\<open>getAll\<close> called with document references,
  as one array or as separate arguments, hands the document group the references in
  their order together with the attempt's transaction id. When the batched fetch
  answers, the result has one snapshot per reference and the snapshot at each position
  is the one of the reference at that position, repeated references included.
\<close>

theorem getAll_delegates_in_order:
  assumes "isEmpty (tx_writeBatch t)"
    and "list_all is_instance_DocumentReference ds"
    and "args = ds \<or> args = [JsArray ds]"
  shows "Transaction_getAll t args =
           Inr (DocumentGroup_get (tx_firestore t) ds \<lparr>dg_transactionId = tx_transactionId t\<rparr>) \<and>
         (\<forall>stored. fetch (tx_firestore t) (tx_transactionId t) ds = Resolved stored \<longrightarrow>
            Transaction_getAll t args =
              Inr (Resolved (map (\<lambda>d. \<lparr>ref = d, data = stored d\<rparr>) ds))) \<and>
         (\<forall>snaps. Transaction_getAll t args = Inr (Resolved snaps) \<longrightarrow>
            length snaps = length ds \<and> (\<forall>i<length ds. ref (snaps ! i) = ds ! i))"
proof -
  from assms have norm: "normalize_documents args = ds"
    by (auto simp: normalize_documents_array normalize_documents_variadic)
  with assms have delegated: "Transaction_getAll t args =
      Inr (DocumentGroup_get (tx_firestore t) ds \<lparr>dg_transactionId = tx_transactionId t\<rparr>)"
    by (simp add: Transaction_getAll_def validate_documents_ok)
  have resolved: "Transaction_getAll t args =
      Inr (Resolved (map (\<lambda>d. \<lparr>ref = d, data = stored d\<rparr>) ds))"
    if "fetch (tx_firestore t) (tx_transactionId t) ds = Resolved stored" for stored
    using that by (simp add: delegated DocumentGroup_get_def)
  have positional: "length snaps = length ds \<and> (\<forall>i<length ds. ref (snaps ! i) = ds ! i)"
    if "Transaction_getAll t args = Inr (Resolved snaps)" for snaps
  proof (cases "fetch (tx_firestore t) (tx_transactionId t) ds")
    case (Resolved stored)
    with that have "snaps = map (\<lambda>d. \<lparr>ref = d, data = stored d\<rparr>) ds"
      by (simp add: delegated DocumentGroup_get_def)
    then show ?thesis by simp
  next
    case (Rejected e)
    with that show ?thesis by (simp add: delegated DocumentGroup_get_def)
  qed
  from delegated resolved positional show ?thesis by blast
qed

theorem getAll_delegates_in_order_witness:
  "isEmpty (tx_writeBatch fresh_attempt) \<and>
   list_all is_instance_DocumentReference three_documents \<and>
   Transaction_getAll fresh_attempt [JsArray three_documents] =
     Inr (DocumentGroup_get example_firestore three_documents \<lparr>dg_transactionId = None\<rparr>) \<and>
   Transaction_getAll fresh_attempt [JsArray three_documents] =
     Inr (Resolved
       [\<lparr>ref = DocumentReference ''col/doc2'', data = None\<rparr>,
        \<lparr>ref = DocumentReference ''col/doc1'', data = Some (JsNumber 1)\<rparr>,
        \<lparr>ref = DocumentReference ''col/doc2'', data = None\<rparr>])"
proof -
  have docs: "list_all is_instance_DocumentReference three_documents"
    by (simp add: three_documents_def)
  have fs: "tx_firestore fresh_attempt = example_firestore"
    and tid: "tx_transactionId fresh_attempt = None"
    by (simp_all add: fresh_attempt_def Transaction_new_def)
  note inst = getAll_delegates_in_order [OF fresh_attempt_empty docs,
      of "[JsArray three_documents]", simplified fs tid]
  have stored: "fetch example_firestore None three_documents =
      Resolved (\<lambda>d. if d = DocumentReference ''col/doc1'' then Some (JsNumber 1) else None)"
    by (simp add: example_firestore_def example_fetch_def)
  from inst stored have "Transaction_getAll fresh_attempt [JsArray three_documents] =
      Inr (Resolved (map (\<lambda>d. \<lparr>ref = d, data =
         (if d = DocumentReference ''col/doc1'' then Some (JsNumber 1) else None)\<rparr>)
           three_documents))"
    by blast
  then have "Transaction_getAll fresh_attempt [JsArray three_documents] =
     Inr (Resolved
       [\<lparr>ref = DocumentReference ''col/doc2'', data = None\<rparr>,
        \<lparr>ref = DocumentReference ''col/doc1'', data = Some (JsNumber 1)\<rparr>,
        \<lparr>ref = DocumentReference ''col/doc2'', data = None\<rparr>])"
    by (simp add: three_documents_def)
  with inst docs fresh_attempt_empty show ?thesis by simp
qed

text \<open>
  C8, as the code has it. A \<^verbatim>\<open>get\<close> with a query on an attempt that has no transaction
  id yet is not rejected: on the fresh attempt it returns the query's result.
\<close>

theorem query_before_begin_counterexample:
  "tx_transactionId fresh_attempt = None \<and>
   Transaction_get fresh_attempt (Query ''col'') = Inr (Resolved (QuerySnapshotResult []))"
  by (simp add: transaction_defs collaborator_defs example_defs)

text \<open>
  C8, amended. On an attempt with an empty write batch and no transaction id, \<^verbatim>\<open>get\<close>
  with a query does not throw: it executes the query with the absent transaction id and
  returns the promise of the query's result.
\<close>

theorem query_before_begin_runs_query:
  assumes "isEmpty (tx_writeBatch t)" and "tx_transactionId t = None"
  shows "Transaction_get t (Query q) =
           Inr (then_promise (Query_get (tx_firestore t) q None) QuerySnapshotResult)"
  using assms by (simp add: Transaction_get_def)

theorem query_before_begin_runs_query_witness:
  "isEmpty (tx_writeBatch fresh_attempt) \<and> tx_transactionId fresh_attempt = None \<and>
   Transaction_get fresh_attempt (Query ''col'') =
     Inr (then_promise (Query_get (tx_firestore fresh_attempt) ''col'' None) QuerySnapshotResult)"
proof -
  have unset: "tx_transactionId fresh_attempt = None"
    by (simp add: fresh_attempt_def Transaction_new_def)
  from query_before_begin_runs_query [OF fresh_attempt_empty unset, of "''col''"]
    fresh_attempt_empty unset
  show ?thesis by simp
qed

section \<open>Writes and commit\<close>

text \<open>
  C4. An \<^verbatim>\<open>update\<close> called with fewer than two arguments throws an argument error, and
  the attempt, its write batch included, is as it was before the call.
\<close>

theorem update_too_few_arguments:
  assumes "length args < 2"
  shows "Transaction_update t args = Inl (ArgumentError (TooFewArguments ''update'' 2)) \<and>
         is_ArgumentError (ArgumentError (TooFewArguments ''update'' 2)) \<and>
         invoke t (Update args) = t \<and>
         tx_writeBatch (invoke t (Update args)) = tx_writeBatch t"
  using assms by (simp add: Transaction_update_def minNumberOfArguments_def)

theorem update_too_few_arguments_witness:
  "length [DocumentReference ''col/doc1''] < 2 \<and>
   Transaction_update written_attempt [DocumentReference ''col/doc1''] =
     Inl (ArgumentError (TooFewArguments ''update'' 2)) \<and>
   tx_writeBatch (invoke written_attempt (Update [DocumentReference ''col/doc1''])) =
     tx_writeBatch written_attempt"
  using update_too_few_arguments [of "[DocumentReference ''col/doc1'']" written_attempt]
  by simp

text \<open>
  C7. \<^verbatim>\<open>commit\<close> is the commit operation of the attempt's write batch, called with the
  attempt's transaction id and request tag. After any sequence of calls on a newly
  constructed attempt, the commit request carries the transaction id the attempt has
  then, the request tag it was constructed with, and exactly the operations of the
  create, set, update and delete calls of the sequence, in the order of the calls.
\<close>

theorem commit_sends_buffered_writes:
  "Transaction_commit t =
     WriteBatch_commit (tx_writeBatch t)
       \<lparr>co_transactionId = tx_transactionId t, co_requestTag = tx_requestTag t\<rparr> \<and>
   Transaction_commit (run (Transaction_new fs previous generated) calls) =
     request fs ''commit''
       (CommitRequest (tx_transactionId (run (Transaction_new fs previous generated) calls))
          (concat (map buffered calls)))
       (Transaction_requestTag (Transaction_new fs previous generated)) None"
proof -
  let ?t0 = "Transaction_new fs previous generated"
  have start: "writes (tx_writeBatch ?t0) = []" "wb_firestore (tx_writeBatch ?t0) = fs"
    by (simp_all add: Transaction_new_def batch_def)
  have "writes (tx_writeBatch (run ?t0 calls)) = concat (map buffered calls)"
    by (simp add: run_writes start)
  moreover have "wb_firestore (tx_writeBatch (run ?t0 calls)) = fs"
    by (simp add: run_fixed_fields start)
  moreover have "tx_requestTag (run ?t0 calls) = Transaction_requestTag ?t0"
    by (simp add: run_fixed_fields Transaction_requestTag_def)
  ultimately show ?thesis
    by (simp add: Transaction_commit_def WriteBatch_commit_def)
qed

section \<open>Construction and begin\<close>

text \<open>
  C5. An attempt constructed from a previous attempt \<open>P\<close> has the request tag of \<open>P\<close>,
  not the tag the generator would give, and the empty batch that the client creates:
  none of the writes of \<open>P\<close>. An attempt constructed without a previous attempt has the
  tag that the generator gives.
\<close>

theorem retry_construction:
  "Transaction_requestTag (Transaction_new fs (Some P) generated) = Transaction_requestTag P \<and>
   tx_writeBatch (Transaction_new fs (Some P) generated) = batch fs \<and>
   writes (tx_writeBatch (Transaction_new fs (Some P) generated)) = [] \<and>
   isEmpty (tx_writeBatch (Transaction_new fs (Some P) generated)) \<and>
   Transaction_requestTag (Transaction_new fs None generated) = generated"
  by (simp add: Transaction_new_def Transaction_requestTag_def batch_def isEmpty_def)

text \<open>
  C6. The request that \<^verbatim>\<open>begin\<close> builds carries the database name of the client, and it
  carries the retry options exactly when the attempt has a previous attempt; they then
  hold the transaction id of that attempt. \<^verbatim>\<open>begin\<close> sends this request as
  \<^verbatim>\<open>beginTransaction\<close> with the attempt's request tag and retries allowed, and returns the
  transport's promise emptied; when the transport resolves, the transaction id of the
  response is the attempt's transaction id afterwards, and when it rejects the attempt
  is unchanged.
\<close>

theorem begin_request_and_result:
  "database (begin_request_of t) = formattedName (tx_firestore t) \<and>
   (options (begin_request_of t) \<noteq> None) = (tx_previousTransaction t \<noteq> None) \<and>
   options (begin_request_of t) =
     map_option (\<lambda>p. \<lparr>readWrite = \<lparr>retryTransaction = tx_transactionId p\<rparr>\<rparr>)
       (tx_previousTransaction t) \<and>
   fst (Transaction_begin t) =
     then_promise
       (request (tx_firestore t) ''beginTransaction''
          (BeginTransactionRequest (begin_request_of t)) (tx_requestTag t) (Some True))
       (\<lambda>resp. ()) \<and>
   (\<forall>resp. request (tx_firestore t) ''beginTransaction''
             (BeginTransactionRequest (begin_request_of t)) (tx_requestTag t) (Some True) =
           Resolved resp \<longrightarrow>
      fst (Transaction_begin t) = Resolved () \<and>
      tx_transactionId (snd (Transaction_begin t)) = transaction resp) \<and>
   (\<forall>e. request (tx_firestore t) ''beginTransaction''
             (BeginTransactionRequest (begin_request_of t)) (tx_requestTag t) (Some True) =
           Rejected e \<longrightarrow>
      Transaction_begin t = (Rejected e, t))"
  by (auto simp: begin_request_of_def Transaction_begin_def with_transactionId_def
      ALLOW_RETRIES_def Let_def split: option.splits promise.splits)

theorem begin_request_and_result_witness:
  "begin_request_of retry_attempt =
     \<lparr>database = ''projects/p/databases/d'',
      options = Some \<lparr>readWrite = \<lparr>retryTransaction = Some ''tx1''\<rparr>\<rparr>\<rparr> \<and>
   begin_request_of fresh_attempt = \<lparr>database = ''projects/p/databases/d'', options = None\<rparr> \<and>
   request (tx_firestore fresh_attempt) ''beginTransaction''
       (BeginTransactionRequest (begin_request_of fresh_attempt)) (tx_requestTag fresh_attempt)
       (Some True) =
     Resolved \<lparr>transaction = Some ''tx1'', writeResults = []\<rparr> \<and>
   fst (Transaction_begin fresh_attempt) = Resolved () \<and>
   tx_transactionId (snd (Transaction_begin fresh_attempt)) = Some ''tx1''"
proof -
  have answered: "request (tx_firestore fresh_attempt) ''beginTransaction''
       (BeginTransactionRequest (begin_request_of fresh_attempt)) (tx_requestTag fresh_attempt)
       (Some True) =
     Resolved \<lparr>transaction = Some ''tx1'', writeResults = []\<rparr>"
    by (simp add: transaction_defs collaborator_defs example_defs)
  have requests: "begin_request_of retry_attempt =
     \<lparr>database = ''projects/p/databases/d'',
      options = Some \<lparr>readWrite = \<lparr>retryTransaction = Some ''tx1''\<rparr>\<rparr>\<rparr>"
    "begin_request_of fresh_attempt = \<lparr>database = ''projects/p/databases/d'', options = None\<rparr>"
    by (simp_all add: transaction_defs collaborator_defs example_defs)
  from begin_request_and_result [of fresh_attempt] answered
  have "fst (Transaction_begin fresh_attempt) = Resolved () \<and>
        tx_transactionId (snd (Transaction_begin fresh_attempt)) = Some ''tx1''"
    by simp
  with answered requests show ?thesis by simp
qed

end
